theory Spec2Isabelle
  imports Main "HOL-Library.Sublist"
begin

section \<open>Python strings and integers\<close>

text \<open>
  Strings are \<^typ>\<open>string\<close>; the report handles ASCII text (project keys, issue keys,
  dates, markup), and the case conversions below change ASCII letters only.
  The apostrophe is written \<open>CHR 0x27\<close> and the line feed \<open>CHR 0x0A\<close>.
\<close>

definition sq :: char where
  "sq = CHR 0x27"

definition nl :: char where
  "nl = CHR 0x0A"

definition digit_char :: "nat \<Rightarrow> char" where
  "digit_char d = ''0123456789'' ! d"

fun digits10 :: "nat \<Rightarrow> string" where
  "digits10 n = (if n < 10 then [digit_char n] else digits10 (n div 10) @ [digit_char (n mod 10)])"

declare digits10.simps [simp del]

text \<open>\<open>str(n)\<close> for a Python int, as an f-string field renders it.\<close>

definition str_int :: "int \<Rightarrow> string" where
  "str_int i = (if i < 0 then CHR ''-'' # digits10 (nat (- i)) else digits10 (nat i))"

text \<open>Zero padding on the left to a minimal width, as \<open>%02d\<close> and \<open>%04d\<close> do.\<close>

definition zfill :: "nat \<Rightarrow> string \<Rightarrow> string" where
  "zfill w s = replicate (w - length s) CHR ''0'' @ s"

definition is_lower :: "char \<Rightarrow> bool" where
  "is_lower c = (97 \<le> (of_char c :: nat) \<and> (of_char c :: nat) \<le> 122)"

definition is_upper :: "char \<Rightarrow> bool" where
  "is_upper c = (65 \<le> (of_char c :: nat) \<and> (of_char c :: nat) \<le> 90)"

definition to_upper :: "char \<Rightarrow> char" where
  "to_upper c = (if is_lower c then char_of ((of_char c :: nat) - 32) else c)"

definition to_lower :: "char \<Rightarrow> char" where
  "to_lower c = (if is_upper c then char_of ((of_char c :: nat) + 32) else c)"

text \<open>\<open>str.lower()\<close>.\<close>

definition lower :: "string \<Rightarrow> string" where
  "lower s = map to_lower s"

text \<open>
  \<open>str.title()\<close>: a letter that follows a letter is lower-cased, any other letter is
  upper-cased; the flag is whether the previous character was a letter.
\<close>

fun title_from :: "bool \<Rightarrow> string \<Rightarrow> string" where
  "title_from prev [] = []"
| "title_from prev (c # cs) =
     (if is_lower c then (if prev then c else to_upper c) # title_from True cs
      else if is_upper c then (if prev then to_lower c else c) # title_from True cs
      else c # title_from False cs)"

definition title :: "string \<Rightarrow> string" where
  "title s = title_from False s"

text \<open>\<open>str.capitalize()\<close>: first character upper-cased, the rest lower-cased.\<close>

definition capitalize :: "string \<Rightarrow> string" where
  "capitalize s = (case s of [] \<Rightarrow> [] | c # cs \<Rightarrow> to_upper c # lower cs)"

text \<open>\<open>s.rstrip("/")\<close>: drop every trailing slash.\<close>

definition rstrip_slash :: "string \<Rightarrow> string" where
  "rstrip_slash s = rev (dropWhile (\<lambda>c. c = CHR ''/'') (rev s))"

text \<open>\<open>sep.join(xs)\<close>.\<close>

fun join :: "string \<Rightarrow> string list \<Rightarrow> string" where
  "join sep [] = []"
| "join sep [x] = x"
| "join sep (x # y # ys) = x @ sep @ join sep (y # ys)"

section \<open>Dates\<close>

text \<open>
  A \<open>datetime.datetime\<close> holds its calendar fields. \<open>strftime('%Y-%m-%d')\<close> is the C
  library's: with glibc \<open>%Y\<close> prints the year without padding (\<open>999-01-02\<close>), and
  \<open>%m\<close> and \<open>%d\<close> print two digits. Subtracting a \<open>timedelta(days=n)\<close> goes through
  the proleptic Gregorian ordinal (1 is 0001-01-01, 3652059 is 9999-12-31) and raises
  \<open>OverflowError\<close> outside that range, or when \<open>n\<close> itself is beyond 999999999.
\<close>

record datetime =
  year :: nat
  month :: nat
  day :: nat
  hour :: nat
  minute :: nat
  second :: nat
  microsecond :: nat

definition strftime_ymd :: "datetime \<Rightarrow> string" where
  "strftime_ymd d =
     digits10 (year d) @ ''-'' @ zfill 2 (digits10 (month d)) @ ''-'' @ zfill 2 (digits10 (day d))"

definition is_leap :: "int \<Rightarrow> bool" where
  "is_leap y = (y mod 4 = 0 \<and> (y mod 100 \<noteq> 0 \<or> y mod 400 = 0))"

definition days_before_year :: "int \<Rightarrow> int" where
  "days_before_year y = (y - 1) * 365 + (y - 1) div 4 - (y - 1) div 100 + (y - 1) div 400"

definition DAYS_IN_MONTH :: "int list" where
  "DAYS_IN_MONTH = [- 1, 31, 28, 31, 30, 31, 30, 31, 31, 30, 31, 30, 31]"

definition DAYS_BEFORE_MONTH :: "int list" where
  "DAYS_BEFORE_MONTH = [- 1, 0, 31, 59, 90, 120, 151, 181, 212, 243, 273, 304, 334]"

definition days_before_month :: "int \<Rightarrow> nat \<Rightarrow> int" where
  "days_before_month y m = DAYS_BEFORE_MONTH ! m + (if m > 2 \<and> is_leap y then 1 else 0)"

definition ymd2ord :: "nat \<Rightarrow> nat \<Rightarrow> nat \<Rightarrow> int" where
  "ymd2ord y m d = days_before_year (int y) + days_before_month (int y) m + int d"

definition ord2ymd :: "int \<Rightarrow> nat \<times> nat \<times> nat" where
  "ord2ymd n0 =
     (let n = n0 - 1;
          n400 = n div 146097; n = n mod 146097;
          n100 = n div 36524; n = n mod 36524;
          n4 = n div 1461; n = n mod 1461;
          n1 = n div 365; n = n mod 365;
          y = n400 * 400 + 1 + n100 * 100 + n4 * 4 + n1
      in if n1 = 4 \<or> n100 = 4 then (nat (y - 1), 12, 31)
         else
           let leapyear = (n1 = 3 \<and> (n4 \<noteq> 24 \<or> n100 = 3));
               m = nat ((n + 50) div 32);
               preceding = DAYS_BEFORE_MONTH ! m + (if m > 2 \<and> leapyear then 1 else 0)
           in if preceding > n
              then let m' = m - 1;
                       preceding' = preceding - (DAYS_IN_MONTH ! m' + (if m' = 2 \<and> leapyear then 1 else 0))
                   in (nat y, m', nat (n - preceding' + 1))
              else (nat y, m, nat (n - preceding + 1)))"

datatype exn =
    EnvironmentError string
  | ValueError string
  | OverflowError string
  | RequestException string
  | RuntimeError string
  | KeyError string
  | SMTPException string
  | OtherError string

definition MAXORDINAL :: int where
  "MAXORDINAL = 3652059"

text \<open>\<open>d - datetime.timedelta(days=n)\<close>; the time of day is unchanged.\<close>

definition minus_days :: "datetime \<Rightarrow> int \<Rightarrow> exn + datetime" where
  "minus_days d n =
     (if \<bar>n\<bar> > 999999999
      then Inl (OverflowError (''days='' @ str_int n @ ''; must have magnitude <= 999999999''))
      else let ord = ymd2ord (year d) (month d) (day d) - n
           in if 0 < ord \<and> ord \<le> MAXORDINAL
              then (case ord2ymd ord of (y, m, dd) \<Rightarrow> Inr (d\<lparr>year := y, month := m, day := dd\<rparr>))
              else Inl (OverflowError ''date value out of range''))"

text \<open>\<open>str(d.date())\<close> is the ISO form, with the year on four digits.\<close>

definition date_str :: "datetime \<Rightarrow> string" where
  "date_str d =
     zfill 4 (digits10 (year d)) @ ''-'' @ zfill 2 (digits10 (month d)) @ ''-'' @ zfill 2 (digits10 (day d))"

section \<open>Query builder\<close>

text \<open>
  A Python dict keeps insertion order; it is an association list with distinct keys.
  \<open>d.get(k)\<close> is \<^const>\<open>map_of\<close>, \<open>d[k] = v\<close> replaces in place or appends.
\<close>

fun dict_set :: "'k \<Rightarrow> 'v \<Rightarrow> ('k \<times> 'v) list \<Rightarrow> ('k \<times> 'v) list" where
  "dict_set k v [] = [(k, v)]"
| "dict_set k v (p # ps) = (if fst p = k then (k, v) # ps else p # dict_set k v ps)"

definition quoted :: "string \<Rightarrow> string" where
  "quoted s = sq # s @ [sq]"

definition build_jql :: "string \<Rightarrow> datetime \<Rightarrow> datetime \<Rightarrow> string \<Rightarrow> (string \<times> string) list" where
  "build_jql project_key start end_dt extra_filters =
     (let date_range = '' >= '' @ quoted (strftime_ymd start) @ '' AND created <= '' @ quoted (strftime_ymd end_dt);
          created_clause = ''project = '' @ project_key @ '' AND created'' @ date_range;
          resolved_clause = ''project = '' @ project_key @ '' AND resolved >= '' @ quoted (strftime_ymd start)
                            @ '' AND resolved <= '' @ quoted (strftime_ymd end_dt);
          open_clause = ''project = '' @ project_key @ '' AND statusCategory != Done AND updated >= ''
                        @ quoted (strftime_ymd start)
      in if extra_filters \<noteq> []
         then [(''created'', created_clause @ '' AND '' @ extra_filters),
               (''resolved'', resolved_clause @ '' AND '' @ extra_filters),
               (''open'', open_clause @ '' AND '' @ extra_filters)]
         else [(''created'', created_clause),
               (''resolved'', resolved_clause),
               (''open'', open_clause)])"

section \<open>Configuration\<close>

record JiraConfig =
  base_url :: string
  project_key :: string
  auth_email :: string
  api_token :: string
  verify_ssl :: bool

record SmtpConfig =
  host :: string
  port :: int
  username :: string
  password :: string
  sender :: string
  recipient :: string
  use_tls :: bool

text \<open>
  The process environment is a map from names to values. \<open>os.getenv(name)\<close> is the
  lookup; \<open>not os.getenv(name)\<close> holds for an unset and for an empty variable.
\<close>

type_synonym environ = "string \<Rightarrow> string option"

definition missing_names :: "environ \<Rightarrow> string list \<Rightarrow> string list" where
  "missing_names env names = filter (\<lambda>name. case env name of None \<Rightarrow> True | Some v \<Rightarrow> v = []) names"

text \<open>\<open>os.environ.get(name, default)\<close>.\<close>

definition environ_get :: "environ \<Rightarrow> string \<Rightarrow> string \<Rightarrow> string" where
  "environ_get env name dflt = (case env name of None \<Rightarrow> dflt | Some v \<Rightarrow> v)"

text \<open>
  \<open>int(s)\<close> on a string, for ASCII input: surrounding whitespace (space and the
  characters 0x09 to 0x0D) is dropped, a sign is optional, digits may be separated by
  single underscores, and there are at most 4300 digits; anything else raises
  \<open>ValueError\<close>, whose message is not modelled.
\<close>

definition is_space :: "char \<Rightarrow> bool" where
  "is_space c = (c \<in> set [CHR '' '', CHR 0x09, CHR 0x0A, CHR 0x0B, CHR 0x0C, CHR 0x0D])"

definition strip :: "string \<Rightarrow> string" where
  "strip s = rev (dropWhile is_space (rev (dropWhile is_space s)))"

definition is_digit :: "char \<Rightarrow> bool" where
  "is_digit c = (48 \<le> (of_char c :: nat) \<and> (of_char c :: nat) \<le> 57)"

fun digits_rest_ok :: "string \<Rightarrow> bool" where
  "digits_rest_ok [] = True"
| "digits_rest_ok (c # cs) =
     (if c = CHR ''_''
      then (case cs of [] \<Rightarrow> False | d # ds \<Rightarrow> is_digit d \<and> digits_rest_ok ds)
      else is_digit c \<and> digits_rest_ok cs)"

definition digits_ok :: "string \<Rightarrow> bool" where
  "digits_ok s = (case s of [] \<Rightarrow> False | c # cs \<Rightarrow> is_digit c \<and> digits_rest_ok cs)"

definition digits_value :: "string \<Rightarrow> int" where
  "digits_value s = foldl (\<lambda>acc c. 10 * acc + (int (of_char c) - 48)) 0 (filter is_digit s)"

definition py_int :: "string \<Rightarrow> exn + int" where
  "py_int s =
     (let t = strip s;
          neg = (case t of [] \<Rightarrow> False | c # _ \<Rightarrow> c = CHR ''-'');
          body = (case t of [] \<Rightarrow> [] | c # cs \<Rightarrow> if c = CHR ''-'' \<or> c = CHR ''+'' then cs else t)
      in if digits_ok body \<and> length (filter is_digit body) \<le> 4300
         then Inr (if neg then - digits_value body else digits_value body)
         else Inl (ValueError ''int()''))"

text \<open>
  \<open>JiraConfig.from_env\<close>. The reads \<open>os.environ[name]\<close> come after the check of
  \<open>missing\<close>, so the four names are set there.
\<close>

definition JiraConfig_from_env :: "environ \<Rightarrow> exn + JiraConfig" where
  "JiraConfig_from_env env =
     (let missing = missing_names env [''JIRA_BASE_URL'', ''JIRA_PROJECT_KEY'', ''JIRA_AUTH_EMAIL'', ''JIRA_API_TOKEN'']
      in if missing \<noteq> []
         then Inl (EnvironmentError (''Missing required environment variables: '' @ join '', '' missing))
         else Inr \<lparr>base_url = rstrip_slash (the (env ''JIRA_BASE_URL'')),
                   project_key = the (env ''JIRA_PROJECT_KEY''),
                   auth_email = the (env ''JIRA_AUTH_EMAIL''),
                   api_token = the (env ''JIRA_API_TOKEN''),
                   verify_ssl = (lower (environ_get env ''JIRA_VERIFY_SSL'' ''true'') = ''true'')\<rparr>)"

text \<open>\<open>SmtpConfig.from_env\<close>; \<open>int(os.environ["SMTP_PORT"])\<close> may raise \<open>ValueError\<close>.\<close>

definition SmtpConfig_from_env :: "environ \<Rightarrow> exn + SmtpConfig" where
  "SmtpConfig_from_env env =
     (let missing = missing_names env [''SMTP_HOST'', ''SMTP_PORT'', ''SMTP_USERNAME'', ''SMTP_PASSWORD'',
                                        ''SMTP_SENDER'', ''SMTP_RECIPIENT'']
      in if missing \<noteq> []
         then Inl (EnvironmentError (''Missing required SMTP environment variables: '' @ join '', '' missing))
         else (case py_int (the (env ''SMTP_PORT'')) of
                 Inl exc \<Rightarrow> Inl exc
               | Inr p \<Rightarrow>
                   Inr \<lparr>host = the (env ''SMTP_HOST''),
                        port = p,
                        username = the (env ''SMTP_USERNAME''),
                        password = the (env ''SMTP_PASSWORD''),
                        sender = the (env ''SMTP_SENDER''),
                        recipient = the (env ''SMTP_RECIPIENT''),
                        use_tls = (lower (environ_get env ''SMTP_USE_TLS'' ''true'') = ''true'')\<rparr>))"

section \<open>Effects\<close>

text \<open>
  What a run does to the outside is recorded in a state that every effectful function
  takes and returns: the HTTP requests issued, the log records, the lines printed, the
  mail sessions opened, each in order.
\<close>

record request =
  url :: string
  param_jql :: string
  param_fields :: string
  param_maxResults :: int
  auth :: "string \<times> string"
  headers :: "(string \<times> string) list"
  verify :: bool
  timeout :: int

text \<open>
  The decoded body of a search response, at the types the source annotates
  (\<open>Tuple[int, List[str]]\<close>): an optional integer \<open>total\<close> and an optional list
  \<open>issues\<close> of objects with string fields. \<open>json\<close> is the outcome of
  \<open>response.json()\<close>, which raises on a body that is not JSON.
\<close>

type_synonym issue = "(string \<times> string) list"

record search_data =
  total :: "int option"
  issues :: "issue list option"

record response =
  status_code :: int
  resp_text :: string
  json :: "exn + search_data"

record message =
  msg_subject :: string
  msg_from :: string
  msg_to :: string
  msg_content :: string
  msg_html :: string

record smtp_session =
  smtp_host :: string
  smtp_port :: int
  smtp_timeout :: int
  smtp_starttls :: bool
  smtp_login :: "string \<times> string"
  smtp_message :: message

datatype level = ERROR | INFO

record state =
  requests :: "request list"
  logged :: "(level \<times> string) list"
  stdout :: "string list"
  mails :: "smtp_session list"

definition log_msg :: "level \<Rightarrow> string \<Rightarrow> state \<Rightarrow> state" where
  "log_msg lvl msg st = st\<lparr>logged := logged st @ [(lvl, msg)]\<rparr>"

text \<open>
  The outside world of a run: the environment variables, the clock, the tracker (its
  answer may depend on the requests it has seen before) and the mail server.
\<close>

record world =
  environ :: environ
  utcnow :: datetime
  http_get :: "request list \<Rightarrow> request \<Rightarrow> exn + response"
  smtp :: "smtp_session list \<Rightarrow> smtp_session \<Rightarrow> exn option"

fun exn_str :: "exn \<Rightarrow> string" where
  "exn_str (EnvironmentError m) = m"
| "exn_str (ValueError m) = m"
| "exn_str (OverflowError m) = m"
| "exn_str (RequestException m) = m"
| "exn_str (RuntimeError m) = m"
| "exn_str (KeyError m) = m"
| "exn_str (SMTPException m) = m"
| "exn_str (OtherError m) = m"

fun is_RequestException :: "exn \<Rightarrow> bool" where
  "is_RequestException (RequestException m) = True"
| "is_RequestException e = False"

fun is_EnvironmentError :: "exn \<Rightarrow> bool" where
  "is_EnvironmentError (EnvironmentError m) = True"
| "is_EnvironmentError e = False"

fun is_SMTPException :: "exn \<Rightarrow> bool" where
  "is_SMTPException (SMTPException m) = True"
| "is_SMTPException e = False"

section \<open>Tracker client\<close>

text \<open>\<open>[issue["key"] for issue in issues]\<close>: the first object without a key raises.\<close>

fun keys_of :: "issue list \<Rightarrow> exn + string list" where
  "keys_of [] = Inr []"
| "keys_of (i # rest) =
     (case map_of i ''key'' of
        None \<Rightarrow> Inl (KeyError ''key'')
      | Some k \<Rightarrow> (case keys_of rest of Inl exc \<Rightarrow> Inl exc | Inr ks \<Rightarrow> Inr (k # ks)))"

definition search_request :: "JiraConfig \<Rightarrow> string \<Rightarrow> request" where
  "search_request config q =
     \<lparr>url = base_url config @ ''/rest/api/3/search'',
      param_jql = q, param_fields = ''key'', param_maxResults = 1000,
      auth = (auth_email config, api_token config),
      headers = [(''Accept'', ''application/json'')],
      verify = verify_ssl config,
      timeout = 30\<rparr>"

definition call_jira_api ::
  "world \<Rightarrow> JiraConfig \<Rightarrow> string \<Rightarrow> state \<Rightarrow> (exn + int \<times> string list) \<times> state" where
  "call_jira_api w config q st =
     (let req = search_request config q;
          st1 = st\<lparr>requests := requests st @ [req]\<rparr>
      in case http_get w (requests st) req of
           Inl exc \<Rightarrow>
             (Inl exc,
              if is_RequestException exc
              then log_msg ERROR (''Failed to call Jira API: '' @ exn_str exc) st1
              else st1)
         | Inr resp \<Rightarrow>
             if status_code resp \<noteq> 200
             then (Inl (RuntimeError (''Jira API error '' @ str_int (status_code resp))),
                   log_msg ERROR (''Jira API returned '' @ str_int (status_code resp) @ '': '' @ resp_text resp) st1)
             else (case json resp of
                     Inl exc \<Rightarrow> (Inl exc, st1)
                   | Inr data \<Rightarrow>
                       (case keys_of (case issues data of None \<Rightarrow> [] | Some xs \<Rightarrow> xs) of
                          Inl exc \<Rightarrow> (Inl exc, st1)
                        | Inr issue_keys \<Rightarrow>
                            (Inr (case total data of None \<Rightarrow> int (length issue_keys) | Some t \<Rightarrow> t,
                                  issue_keys),
                             st1))))"

section \<open>Summarizer\<close>

record JiraIssueSummary =
  created_count :: int
  resolved_count :: int
  open_count :: int
  issue_keys :: "(string \<times> string list) list"

text \<open>The loop over \<open>jql_queries.items()\<close>; an exception leaves it at once.\<close>

fun summarize_loop ::
  "world \<Rightarrow> JiraConfig \<Rightarrow> (string \<times> string) list \<Rightarrow> (string \<times> int) list \<Rightarrow>
   (string \<times> string list) list \<Rightarrow> state \<Rightarrow>
   (exn + (string \<times> int) list \<times> (string \<times> string list) list) \<times> state" where
  "summarize_loop w config [] counts ikeys st = (Inr (counts, ikeys), st)"
| "summarize_loop w config ((label, q) # rest) counts ikeys st =
     (case call_jira_api w config q st of
        (Inl exc, st1) \<Rightarrow> (Inl exc, st1)
      | (Inr (tot, ks), st1) \<Rightarrow>
          summarize_loop w config rest (dict_set label tot counts) (dict_set label ks ikeys)
            (log_msg INFO (capitalize label @ '' issues: '' @ str_int tot) st1))"

text \<open>\<open>counts.get(label, 0)\<close>.\<close>

definition counts_get :: "(string \<times> int) list \<Rightarrow> string \<Rightarrow> int" where
  "counts_get counts label = (case map_of counts label of None \<Rightarrow> 0 | Some c \<Rightarrow> c)"

definition summarize_issues ::
  "world \<Rightarrow> JiraConfig \<Rightarrow> datetime \<Rightarrow> datetime \<Rightarrow> string \<Rightarrow> state \<Rightarrow> (exn + JiraIssueSummary) \<times> state" where
  "summarize_issues w config start end_dt extra_filters st =
     (case summarize_loop w config (build_jql (project_key config) start end_dt extra_filters) [] [] st of
        (Inl exc, st1) \<Rightarrow> (Inl exc, st1)
      | (Inr (counts, ikeys), st1) \<Rightarrow>
          (Inr \<lparr>created_count = counts_get counts ''created'',
                resolved_count = counts_get counts ''resolved'',
                open_count = counts_get counts ''open'',
                issue_keys = ikeys\<rparr>,
           st1))"

section \<open>Report renderer\<close>

definition link_item :: "JiraConfig \<Rightarrow> string \<Rightarrow> string" where
  "link_item config k =
     ''<li><a href='' @ [sq] @ base_url config @ ''/browse/'' @ k @ [sq] @ ''>'' @ k @ ''</a></li>''"

definition label_heading :: "string \<Rightarrow> string" where
  "label_heading label = ''<p><strong>'' @ title label @ '' issues</strong>:</p>''"

text \<open>The loop over \<open>summary.issue_keys.items()\<close>, appending to \<open>lines\<close>.\<close>

fun body_loop :: "JiraConfig \<Rightarrow> (string \<times> string list) list \<Rightarrow> string list \<Rightarrow> string list" where
  "body_loop config [] lines = lines"
| "body_loop config ((label, ks) # rest) lines =
     (let lines1 = lines @ [label_heading label]
      in if ks = []
         then body_loop config rest (lines1 @ [''<p>No issues found.</p>''])
         else body_loop config rest (lines1 @ [''<ul>'' @ concat (map (link_item config) ks) @ ''</ul>'']))"

definition body_lines :: "JiraIssueSummary \<Rightarrow> JiraConfig \<Rightarrow> string list" where
  "body_lines summary config =
     body_loop config (issue_keys summary)
       [''<h2>Weekly Jira Project Summary</h2>'',
        ''<ul>'',
        ''  <li>Issues created: <strong>'' @ str_int (created_count summary) @ ''</strong></li>'',
        ''  <li>Issues resolved: <strong>'' @ str_int (resolved_count summary) @ ''</strong></li>'',
        ''  <li>Issues currently open: <strong>'' @ str_int (open_count summary) @ ''</strong></li>'',
        ''</ul>'',
        ''<h3>Issue Links</h3>'']"

definition build_email_body :: "JiraIssueSummary \<Rightarrow> JiraConfig \<Rightarrow> string" where
  "build_email_body summary config = join [nl] (body_lines summary config)"

text \<open>The lines that one turn of the loop appends for a label.\<close>

definition label_lines :: "JiraConfig \<Rightarrow> string \<times> string list \<Rightarrow> string list" where
  "label_lines config item = body_loop config [item] []"

section \<open>Mail sender\<close>

text \<open>
  \<open>str.splitlines()\<close> for ASCII text: a line ends at LF, CR, CR LF, VT, FF or one of
  the separators 0x1C to 0x1E; a line break at the very end opens no further line.
\<close>

definition is_linebreak :: "char \<Rightarrow> bool" where
  "is_linebreak c = (c \<in> set [CHR 0x0A, CHR 0x0B, CHR 0x0C, CHR 0x0D, CHR 0x1C, CHR 0x1D, CHR 0x1E])"

fun splitlines_from :: "string \<Rightarrow> string \<Rightarrow> string list" where
  "splitlines_from cur [] = (if cur = [] then [] else [cur])"
| "splitlines_from cur [c] = (if is_linebreak c then [cur] else [cur @ [c]])"
| "splitlines_from cur (c # d # cs) =
     (if c = CHR 0x0D \<and> d = CHR 0x0A then cur # splitlines_from [] cs
      else if is_linebreak c then cur # splitlines_from [] (d # cs)
      else splitlines_from (cur @ [c]) (d # cs))"

definition splitlines :: "string \<Rightarrow> string list" where
  "splitlines s = splitlines_from [] s"

text \<open>
  Assigning a header of an \<open>EmailMessage\<close> raises \<open>ValueError\<close> when the value has
  more than one line.
\<close>

definition header_ok :: "string \<Rightarrow> bool" where
  "header_ok v = (length (splitlines v) \<le> 1)"

text \<open>
  \<open>send_email\<close>. The message is built first, outside the \<open>try\<close>: a header value of
  several lines raises before any session is opened. The outcome of the session
  (connect, STARTTLS, login, send) is the mail server's answer.
\<close>

definition send_email :: "world \<Rightarrow> SmtpConfig \<Rightarrow> string \<Rightarrow> string \<Rightarrow> state \<Rightarrow> exn option \<times> state" where
  "send_email w smtp_cfg subject body_html st =
     (if \<not> header_ok subject \<or> \<not> header_ok (sender smtp_cfg) \<or> \<not> header_ok (recipient smtp_cfg)
      then (Some (ValueError ''Header values may not contain linefeed or carriage return characters''), st)
      else
        let msg = \<lparr>msg_subject = subject, msg_from = sender smtp_cfg, msg_to = recipient smtp_cfg,
                   msg_content = ''This report requires an HTML capable email client.'',
                   msg_html = body_html\<rparr>;
            session = \<lparr>smtp_host = host smtp_cfg, smtp_port = port smtp_cfg, smtp_timeout = 30,
                       smtp_starttls = use_tls smtp_cfg,
                       smtp_login = (username smtp_cfg, password smtp_cfg),
                       smtp_message = msg\<rparr>;
            st1 = st\<lparr>mails := mails st @ [session]\<rparr>
        in case smtp w (mails st) session of
             None \<Rightarrow> (None, log_msg INFO (''Email successfully sent to '' @ recipient smtp_cfg) st1)
           | Some exc \<Rightarrow>
               (Some exc,
                if is_SMTPException exc
                then log_msg ERROR (''Failed to send email: '' @ exn_str exc) st1
                else st1))"

section \<open>Orchestrator\<close>

record args =
  days :: int
  filters :: string
  dry_run :: bool

text \<open>
  \<open>main\<close> after \<open>parse_args\<close>. The result is the exit code that \<open>main\<close>
  returns, or the exception that leaves it uncaught.
\<close>

definition load_config :: "environ \<Rightarrow> exn + JiraConfig \<times> SmtpConfig" where
  "load_config env =
     (case JiraConfig_from_env env of
        Inl exc \<Rightarrow> Inl exc
      | Inr jira_config \<Rightarrow>
          (case SmtpConfig_from_env env of
             Inl exc \<Rightarrow> Inl exc
           | Inr smtp_config \<Rightarrow> Inr (jira_config, smtp_config)))"

definition main :: "world \<Rightarrow> args \<Rightarrow> state \<Rightarrow> (exn + int) \<times> state" where
  "main w a st =
     (let end_dt = utcnow w
      in case minus_days end_dt (days a) of
           Inl exc \<Rightarrow> (Inl exc, st)
         | Inr start \<Rightarrow>
             (case load_config (environ w) of
                Inl exc \<Rightarrow>
                  if is_EnvironmentError exc
                  then (Inr 1, log_msg ERROR (''Configuration error: '' @ exn_str exc) st)
                  else (Inl exc, st)
              | Inr (jira_config, smtp_config) \<Rightarrow>
                  (case summarize_issues w jira_config start end_dt (filters a) st of
                     (Inl exc, st1) \<Rightarrow> (Inr 2, log_msg ERROR ''Failed to summarize issues'' st1)
                   | (Inr summary, st1) \<Rightarrow>
                       let body = build_email_body summary jira_config;
                           subject = ''Weekly Jira Report for '' @ project_key jira_config @ '' (''
                                     @ date_str start @ '' - '' @ date_str end_dt @ '')'';
                           st2 = st1\<lparr>stdout := stdout st1 @ [body]\<rparr>
                       in if dry_run a
                          then (Inr 0, log_msg INFO ''Dry run enabled; not sending email'' st2)
                          else (case send_email w smtp_config subject body st2 of
                                  (Some exc, st3) \<Rightarrow> (Inr 3, log_msg ERROR ''Failed to send email'' st3)
                                | (None, st3) \<Rightarrow> (Inr 0, st3)))))"

section \<open>Reading links back from the markup\<close>

text \<open>
  Modelled from the spec: the parsing of the produced markup for link hrefs, which the
  round-trip property of the report is stated with; the repository has no such parser.
  Every occurrence of \<open><a href='\<close> opens a link, its target runs to the next
  apostrophe, and its text runs from after the following character to the next \<open><\<close>.
\<close>

definition link_at :: "string \<Rightarrow> string \<times> string" where
  "link_at s =
     (let target = takeWhile (\<lambda>c. c \<noteq> sq) s;
          after = drop 2 (dropWhile (\<lambda>c. c \<noteq> sq) s)
      in (target, takeWhile (\<lambda>c. c \<noteq> CHR ''<'') after))"

fun links :: "string \<Rightarrow> (string \<times> string) list" where
  "links [] = []"
| "links (c # cs) =
     (if prefix (''<a href='' @ [sq]) (c # cs)
      then link_at (drop 8 cs) # links cs
      else links cs)"

section \<open>An example run\<close>

text \<open>A window of seven days ending on 2024-06-10, for the project \<open>SCAL\<close>.\<close>

definition ex_end :: datetime where
  "ex_end = \<lparr>year = 2024, month = 6, day = 10, hour = 9, minute = 30, second = 0, microsecond = 0\<rparr>"

definition ex_start :: datetime where
  "ex_start = \<lparr>year = 2024, month = 6, day = 3, hour = 9, minute = 30, second = 0, microsecond = 0\<rparr>"

text \<open>A tracker configuration, the empty effect state, and stub worlds whose tracker answers the
  n-th request with the n-th element of a list.\<close>

definition ex_config :: JiraConfig where
  "ex_config = \<lparr>base_url = ''https://jira.example.com'', project_key = ''SCAL'',
                 auth_email = ''bot@example.com'', api_token = ''secret'', verify_ssl = True\<rparr>"

definition st0 :: state where
  "st0 = \<lparr>requests = [], logged = [], stdout = [], mails = []\<rparr>"

definition ok_response :: "int option \<Rightarrow> string list \<Rightarrow> response" where
  "ok_response t ks =
     \<lparr>status_code = 200, resp_text = [],
      json = Inr \<lparr>total = t, issues = Some (map (\<lambda>k. [(''key'', k)]) ks)\<rparr>\<rparr>"

definition error_response :: "int \<Rightarrow> string \<Rightarrow> response" where
  "error_response code body = \<lparr>status_code = code, resp_text = body, json = Inl (ValueError ''not JSON'')\<rparr>"

definition stub_world :: "environ \<Rightarrow> (exn + response) list \<Rightarrow> world" where
  "stub_world env answers =
     \<lparr>environ = env, utcnow = ex_end,
      http_get = (\<lambda>hist req. if length hist < length answers then answers ! length hist
                              else Inl (RequestException ''no answer'')),
      smtp = (\<lambda>hist session. None)\<rparr>"

definition scal_keys :: "nat \<Rightarrow> string list" where
  "scal_keys n = map (\<lambda>i. ''SCAL-'' @ digits10 i) [1..<Suc n]"

text \<open>The three queries of the example window, a tracker whose second answer is a failure,
  and one that answers all three queries.\<close>

definition ex_created_jql :: string where
  "ex_created_jql = ''project = SCAL AND created >= '' @ quoted ''2024-06-03'' @ '' AND created <= '' @ quoted ''2024-06-10''"

definition ex_resolved_jql :: string where
  "ex_resolved_jql = ''project = SCAL AND resolved >= '' @ quoted ''2024-06-03'' @ '' AND resolved <= '' @ quoted ''2024-06-10''"

definition ex_open_jql :: string where
  "ex_open_jql = ''project = SCAL AND statusCategory != Done AND updated >= '' @ quoted ''2024-06-03''"

definition resolved_fails :: world where
  "resolved_fails = stub_world Map.empty
     [Inr (ok_response (Some 12) (scal_keys 12)), Inl (RequestException ''read timed out'')]"

definition all_answer :: world where
  "all_answer = stub_world Map.empty
     [Inr (ok_response (Some 12) (scal_keys 12)), Inr (ok_response (Some 9) (scal_keys 9)),
      Inr (ok_response (Some 5) [''SCAL-123'', ''SCAL-118'', ''SCAL-117'', ''SCAL-110''])]"

text \<open>A complete environment and one without the mail password, the command line
  \<open>--dry-run\<close>, and a tracker that reports 12 created, 9 resolved and 5 open issues.\<close>

definition ex_environ :: environ where
  "ex_environ = map_of
     [(''JIRA_BASE_URL'', ''https://jira.example.com/''), (''JIRA_PROJECT_KEY'', ''SCAL''),
      (''JIRA_AUTH_EMAIL'', ''bot@example.com''), (''JIRA_API_TOKEN'', ''secret''),
      (''SMTP_HOST'', ''mail.example.com''), (''SMTP_PORT'', ''587''),
      (''SMTP_USERNAME'', ''reports''), (''SMTP_PASSWORD'', ''hunter2''),
      (''SMTP_SENDER'', ''reports@example.com''), (''SMTP_RECIPIENT'', ''lead@example.com'')]"

definition no_smtp_password :: environ where
  "no_smtp_password = ex_environ(''SMTP_PASSWORD'' := None)"

definition ex_smtp :: SmtpConfig where
  "ex_smtp = \<lparr>host = ''mail.example.com'', port = 587, username = ''reports'', password = ''hunter2'',
               sender = ''reports@example.com'', recipient = ''lead@example.com'', use_tls = True\<rparr>"

definition ex_args :: args where
  "ex_args = \<lparr>days = 7, filters = [], dry_run = True\<rparr>"

definition ex_answers :: "(exn + response) list" where
  "ex_answers = [Inr (ok_response (Some 12) (scal_keys 12)), Inr (ok_response (Some 9) (scal_keys 9)),
      Inr (ok_response (Some 5) [''SCAL-123'', ''SCAL-118'', ''SCAL-117'', ''SCAL-110''])]"

definition ex_summary :: JiraIssueSummary where
  "ex_summary = \<lparr>created_count = 12, resolved_count = 9, open_count = 5,
              issue_keys = [(''created'', scal_keys 12), (''resolved'', scal_keys 9),
                            (''open'', [''SCAL-123'', ''SCAL-118'', ''SCAL-117'', ''SCAL-110''])]\<rparr>"

text \<open>A summary whose only key contains an apostrophe, and one with plain keys.\<close>

definition quote_key :: string where
  "quote_key = ''SCAL-1'' @ [sq] @ ''x''"

definition quote_summary :: JiraIssueSummary where
  "quote_summary = \<lparr>created_count = 0, resolved_count = 0, open_count = 1,
                      issue_keys = [(''open'', [quote_key])]\<rparr>"

definition rt_summary :: JiraIssueSummary where
  "rt_summary = \<lparr>created_count = 1, resolved_count = 0, open_count = 2,
                   issue_keys = [(''created'', [''SCAL-124'']), (''resolved'', []),
                                 (''open'', [''SCAL-123'', ''SCAL-118''])]\<rparr>"


definition big_args :: args where
  "big_args = \<lparr>days = 1000000000, filters = [], dry_run = True\<rparr>"

definition notice_summary :: JiraIssueSummary where
  "notice_summary = \<lparr>created_count = 3, resolved_count = 1, open_count = 0,
                       issue_keys = [(''created'', [''SCAL-7'']), (''open'', [])]\<rparr>"

section \<open>Properties of the query builder\<close>

lemma sublist_mid: "sublist xs (ps @ xs @ ss)"
  by (rule sublist_appendI)

lemma strftime_ex_end: "strftime_ymd ex_end = ''2024-06-10''"
  by (simp add: strftime_ymd_def ex_end_def zfill_def digits10.simps digit_char_def)

lemma strftime_ex_start: "strftime_ymd ex_start = ''2024-06-03''"
  by (simp add: strftime_ymd_def ex_start_def zfill_def digits10.simps digit_char_def)

text \<open>
  C1, as the code has it. For every project key, window and filter (so for every window
  with start before end), the builder returns exactly three non-empty query strings,
  labelled created, resolved and open in this order, and each contains the project key.
  The created and the resolved query bound their field by the start date below and by
  the end date above. The open query is exactly the project clause,
  \<open>statusCategory != Done\<close>, \<open>updated >= '<start>'\<close> and, when the filter is not empty,
  the filter: the builder bounds \<open>updated\<close> by the start date below and writes no upper
  bound for it.
\<close>

theorem build_jql_bounds:
  "\<exists>qc qr qo. build_jql p s e f = [(''created'', qc), (''resolved'', qr), (''open'', qo)]
     \<and> qc \<noteq> [] \<and> qr \<noteq> [] \<and> qo \<noteq> []
     \<and> sublist p qc \<and> sublist p qr \<and> sublist p qo
     \<and> sublist (''created >= '' @ quoted (strftime_ymd s) @ '' AND created <= '' @ quoted (strftime_ymd e)) qc
     \<and> sublist (''resolved >= '' @ quoted (strftime_ymd s) @ '' AND resolved <= '' @ quoted (strftime_ymd e)) qr
     \<and> sublist (''updated >= '' @ quoted (strftime_ymd s)) qo
     \<and> qo = ''project = '' @ p @ '' AND statusCategory != Done AND updated >= '' @ quoted (strftime_ymd s)
            @ (if f = [] then [] else '' AND '' @ f)"
proof -
  let ?S = "quoted (strftime_ymd s)" and ?E = "quoted (strftime_ymd e)"
  let ?sfx = "if f = [] then [] else '' AND '' @ f"
  let ?c = "''project = '' @ p @ '' AND created >= '' @ ?S @ '' AND created <= '' @ ?E @ ?sfx"
  let ?r = "''project = '' @ p @ '' AND resolved >= '' @ ?S @ '' AND resolved <= '' @ ?E @ ?sfx"
  let ?o = "''project = '' @ p @ '' AND statusCategory != Done AND updated >= '' @ ?S @ ?sfx"
  have b: "build_jql p s e f = [(''created'', ?c), (''resolved'', ?r), (''open'', ?o)]"
    by (simp add: build_jql_def Let_def)
  have pc: "sublist p ?c" and pr: "sublist p ?r" and po: "sublist p ?o"
    by (rule sublist_mid)+
  have "?c = (''project = '' @ p @ '' AND '') @ (''created >= '' @ ?S @ '' AND created <= '' @ ?E) @ ?sfx"
    by simp
  then have dc: "sublist (''created >= '' @ ?S @ '' AND created <= '' @ ?E) ?c"
    by (metis sublist_mid)
  have "?r = (''project = '' @ p @ '' AND '') @ (''resolved >= '' @ ?S @ '' AND resolved <= '' @ ?E) @ ?sfx"
    by simp
  then have dr: "sublist (''resolved >= '' @ ?S @ '' AND resolved <= '' @ ?E) ?r"
    by (metis sublist_mid)
  have "?o = (''project = '' @ p @ '' AND statusCategory != Done AND '') @ (''updated >= '' @ ?S) @ ?sfx"
    by simp
  then have dopen: "sublist (''updated >= '' @ ?S) ?o"
    by (metis sublist_mid)
  show ?thesis
    using b pc pr po dc dr dopen by simp
qed

text \<open>
  The claim C1 as stated fails: for the window 2024-06-03 to 2024-06-10, the project
  \<open>SCAL\<close> and no filter, the end date does not occur in the open query.
\<close>

theorem open_query_end_date_counterexample:
  "ex_start = ex_end\<lparr>day := 3\<rparr> \<and> strftime_ymd ex_end = ''2024-06-10''
   \<and> \<not> sublist (strftime_ymd ex_end) (the (map_of (build_jql ''SCAL'' ex_start ex_end []) ''open''))"
  by (simp add: build_jql_def Let_def quoted_def sq_def strftime_ex_end strftime_ex_start sublist_code(3))
    (simp add: ex_start_def ex_end_def)

text \<open>
  C6. A non-empty filter is appended verbatim, after \<open> AND \<close>, to each of the three
  query strings that the builder gives without a filter; with the empty filter the
  three strings are the bare clauses, nothing appended. The builder is a function of
  its four arguments: equal arguments give equal query strings.
\<close>

theorem build_jql_filter:
  "(f \<noteq> [] \<longrightarrow>
      build_jql p s e f = map (\<lambda>(label, q). (label, q @ '' AND '' @ f)) (build_jql p s e []))
   \<and> build_jql p s e [] =
       [(''created'', ''project = '' @ p @ '' AND created >= '' @ quoted (strftime_ymd s)
                      @ '' AND created <= '' @ quoted (strftime_ymd e)),
        (''resolved'', ''project = '' @ p @ '' AND resolved >= '' @ quoted (strftime_ymd s)
                      @ '' AND resolved <= '' @ quoted (strftime_ymd e)),
        (''open'', ''project = '' @ p @ '' AND statusCategory != Done AND updated >= '' @ quoted (strftime_ymd s))]
   \<and> (p = p' \<and> s = s' \<and> e = e' \<and> f = f' \<longrightarrow> build_jql p s e f = build_jql p' s' e' f')"
  by (simp add: build_jql_def Let_def)

theorem build_jql_filter_witness:
  "''priority = High'' \<noteq> []
   \<and> build_jql ''SCAL'' ex_start ex_end ''priority = High'' =
       map (\<lambda>(label, q). (label, q @ '' AND priority = High'')) (build_jql ''SCAL'' ex_start ex_end [])
   \<and> map_of (build_jql ''SCAL'' ex_start ex_end ''priority = High'') ''open'' =
       Some (''project = SCAL AND statusCategory != Done AND updated >= '' @ quoted ''2024-06-03'' @ '' AND priority = High'')"
  using build_jql_filter [of "''priority = High''" "''SCAL''" ex_start ex_end "''SCAL''" ex_start ex_end "''priority = High''"]
  by (simp add: strftime_ex_start)

section \<open>Properties of the tracker client\<close>

lemma keys_of_all:
  "\<forall>i \<in> set xs. map_of i ''key'' \<noteq> None \<Longrightarrow> keys_of xs = Inr (map (\<lambda>i. the (map_of i ''key'')) xs)"
  by (induction xs) auto

lemma call_jira_api_ok:
  assumes "http_get w (requests st) (search_request config q) = Inr resp"
    and "status_code resp = 200" and "json resp = Inr data"
    and "xs = (case issues data of None \<Rightarrow> [] | Some l \<Rightarrow> l)"
    and "\<forall>i \<in> set xs. map_of i ''key'' \<noteq> None"
  shows "call_jira_api w config q st =
           (Inr (case total data of None \<Rightarrow> int (length xs) | Some t \<Rightarrow> t,
                 map (\<lambda>i. the (map_of i ''key'')) xs),
            st\<lparr>requests := requests st @ [search_request config q]\<rparr>)"
  using assms keys_of_all [of xs] by (simp add: call_jira_api_def Let_def split: option.splits)

lemma stub_first: "http_get (stub_world env (a # as)) [] req = a"
  by (simp add: stub_world_def)

lemma keys_of_ok: "map (\<lambda>i. the (map_of i ''key'')) (map (\<lambda>k. [(''key'', k)]) ks) = ks"
  by (induction ks) auto

lemma call_stub_ok:
  "call_jira_api (stub_world env (Inr (ok_response t ks) # as)) config q st0 =
     (Inr (case t of None \<Rightarrow> int (length ks) | Some n \<Rightarrow> n, ks),
      st0\<lparr>requests := [search_request config q]\<rparr>)"
  using call_jira_api_ok [of "stub_world env (Inr (ok_response t ks) # as)" st0 config q "ok_response t ks"
      "\<lparr>total = t, issues = Some (map (\<lambda>k. [(''key'', k)]) ks)\<rparr>" "map (\<lambda>k. [(''key'', k)]) ks"]
  by (simp add: stub_first st0_def ok_response_def keys_of_ok comp_def split: option.splits)







text \<open>
  C3, as the code has it. A response with a status other than 200 never yields a result:
  the client raises \<open>RuntimeError\<close> with the message \<open>Jira API error <status>\<close>, which
  carries the status code only; the response body goes to the error log. An exception of
  the HTTP call is raised again unchanged. Every request is sent with a timeout of 30.
\<close>

theorem call_jira_api_failure:
  "(http_get w (requests st) (search_request config q) = Inr resp \<and> status_code resp \<noteq> 200 \<longrightarrow>
      call_jira_api w config q st =
        (Inl (RuntimeError (''Jira API error '' @ str_int (status_code resp))),
         log_msg ERROR (''Jira API returned '' @ str_int (status_code resp) @ '': '' @ resp_text resp)
           (st\<lparr>requests := requests st @ [search_request config q]\<rparr>)))
   \<and> (http_get w (requests st) (search_request config q) = Inl exc \<longrightarrow>
        fst (call_jira_api w config q st) = Inl exc
        \<and> requests (snd (call_jira_api w config q st)) = requests st @ [search_request config q])
   \<and> timeout (search_request config q) = 30"
  by (auto simp: call_jira_api_def Let_def search_request_def log_msg_def)

lemma str_int_503: "str_int 503 = ''503''"
  by (simp add: str_int_def digits10.simps digit_char_def)

theorem call_jira_api_failure_witness:
  "call_jira_api (stub_world Map.empty [Inr (error_response 503 ''upstream overloaded'')]) ex_config ''q'' st0
     = (Inl (RuntimeError ''Jira API error 503''),
        st0\<lparr>requests := [search_request ex_config ''q''],
            logged := [(ERROR, ''Jira API returned 503: upstream overloaded'')]\<rparr>)
   \<and> fst (call_jira_api (stub_world Map.empty [Inl (RequestException ''connect timeout'')]) ex_config ''q'' st0)
     = Inl (RequestException ''connect timeout'')"
  using call_jira_api_failure [of "stub_world Map.empty [Inr (error_response 503 ''upstream overloaded'')]" st0 ex_config "''q''"
      "error_response 503 ''upstream overloaded''" "RequestException ''x''"]
    call_jira_api_failure [of "stub_world Map.empty [Inl (RequestException ''connect timeout'')]" st0 ex_config "''q''"
      "error_response 503 ''upstream overloaded''" "RequestException ''connect timeout''"]
  by (simp add: stub_first st0_def error_response_def str_int_503 log_msg_def)

text \<open>
  The claim C3 as stated fails: for a 503 response with the body
  \<open>upstream overloaded\<close> the raised error is \<open>RuntimeError('Jira API error 503')\<close>, and the
  body is not part of it.
\<close>

theorem api_error_body_counterexample:
  "fst (call_jira_api (stub_world Map.empty [Inr (error_response 503 ''upstream overloaded'')]) ex_config ''q'' st0)
     = Inl (RuntimeError ''Jira API error 503'')
   \<and> resp_text (error_response 503 ''upstream overloaded'') = ''upstream overloaded''
   \<and> \<not> sublist ''upstream overloaded'' (exn_str (RuntimeError ''Jira API error 503''))"
  by (simp add: call_jira_api_def Let_def stub_first st0_def error_response_def str_int_503 sublist_code(3))

section \<open>Properties of the summarizer\<close>

lemma call_requests:
  "requests (snd (call_jira_api w config q st)) = requests st @ [search_request config q]"
  by (simp add: call_jira_api_def Let_def log_msg_def split: sum.splits option.splits)

lemma call_stdout_mails:
  "stdout (snd (call_jira_api w config q st)) = stdout st \<and> mails (snd (call_jira_api w config q st)) = mails st"
  by (simp add: call_jira_api_def Let_def log_msg_def split: sum.splits option.splits)

lemma capitalize_labels:
  "capitalize ''created'' = ''Created''" "capitalize ''resolved'' = ''Resolved''" "capitalize ''open'' = ''Open''"
  by code_simp+

text \<open>
  C2. The summarizer calls the tracker for created, then resolved, then open, each call
  after the previous one has returned. A call that fails ends the run of calls: the
  summarizer returns that very failure and the state the failing call left, and no
  summary. If the created call fails, only the created query has been issued; if the
  resolved call fails, the created and the resolved query have been issued and the open
  query has not; if both succeed, the three queries have been issued in this order, and
  the result is the failure of the open call or the summary of the three results.
\<close>

theorem summarize_issues_fail_fast:
  assumes "build_jql (project_key config) start end_dt f = [(''created'', qc), (''resolved'', qr), (''open'', qo)]"
  shows "(call_jira_api w config qc st = (Inl exc, st1) \<longrightarrow>
            summarize_issues w config start end_dt f st = (Inl exc, st1)
            \<and> requests st1 = requests st @ [search_request config qc])
       \<and> (call_jira_api w config qc st = (Inr (t1, k1), st1)
            \<and> call_jira_api w config qr (log_msg INFO (''Created issues: '' @ str_int t1) st1) = (Inl exc, st2) \<longrightarrow>
            summarize_issues w config start end_dt f st = (Inl exc, st2)
            \<and> requests st2 = requests st @ [search_request config qc, search_request config qr])
       \<and> (call_jira_api w config qc st = (Inr (t1, k1), st1)
            \<and> call_jira_api w config qr (log_msg INFO (''Created issues: '' @ str_int t1) st1) = (Inr (t2, k2), st2)
            \<and> call_jira_api w config qo (log_msg INFO (''Resolved issues: '' @ str_int t2) st2) = (r3, st3) \<longrightarrow>
            requests (snd (summarize_issues w config start end_dt f st))
              = requests st @ [search_request config qc, search_request config qr, search_request config qo]
            \<and> (r3 = Inl exc \<longrightarrow> summarize_issues w config start end_dt f st = (Inl exc, st3))
            \<and> (r3 = Inr (t3, k3) \<longrightarrow>
                 fst (summarize_issues w config start end_dt f st)
                   = Inr \<lparr>created_count = t1, resolved_count = t2, open_count = t3,
                          issue_keys = [(''created'', k1), (''resolved'', k2), (''open'', k3)]\<rparr>))"
proof (intro conjI impI)
  assume a: "call_jira_api w config qc st = (Inl exc, st1)"
  show "summarize_issues w config start end_dt f st = (Inl exc, st1)"
    using assms a by (simp add: summarize_issues_def)
  show "requests st1 = requests st @ [search_request config qc]"
    using call_requests [of w config qc st] a by simp
next
  assume a: "call_jira_api w config qc st = (Inr (t1, k1), st1)
    \<and> call_jira_api w config qr (log_msg INFO (''Created issues: '' @ str_int t1) st1) = (Inl exc, st2)"
  show "summarize_issues w config start end_dt f st = (Inl exc, st2)"
    using assms a by (simp add: summarize_issues_def capitalize_labels)
  show "requests st2 = requests st @ [search_request config qc, search_request config qr]"
    using call_requests [of w config qc st]
      call_requests [of w config qr "log_msg INFO (''Created issues: '' @ str_int t1) st1"] a
    by (simp add: log_msg_def)
next
  assume a: "call_jira_api w config qc st = (Inr (t1, k1), st1)
    \<and> call_jira_api w config qr (log_msg INFO (''Created issues: '' @ str_int t1) st1) = (Inr (t2, k2), st2)
    \<and> call_jira_api w config qo (log_msg INFO (''Resolved issues: '' @ str_int t2) st2) = (r3, st3)"
  have r: "requests st3 = requests st @ [search_request config qc, search_request config qr, search_request config qo]"
    using call_requests [of w config qc st]
      call_requests [of w config qr "log_msg INFO (''Created issues: '' @ str_int t1) st1"]
      call_requests [of w config qo "log_msg INFO (''Resolved issues: '' @ str_int t2) st2"] a
    by (simp add: log_msg_def)
  show "requests (snd (summarize_issues w config start end_dt f st))
      = requests st @ [search_request config qc, search_request config qr, search_request config qo]"
    using assms a r
    by (cases r3) (auto simp: summarize_issues_def capitalize_labels log_msg_def)
  show "summarize_issues w config start end_dt f st = (Inl exc, st3)" if "r3 = Inl exc"
    using assms a that by (simp add: summarize_issues_def capitalize_labels)
  show "fst (summarize_issues w config start end_dt f st)
      = Inr \<lparr>created_count = t1, resolved_count = t2, open_count = t3,
             issue_keys = [(''created'', k1), (''resolved'', k2), (''open'', k3)]\<rparr>" if "r3 = Inr (t3, k3)"
    using assms a that by (simp add: summarize_issues_def capitalize_labels counts_get_def)
qed

lemma ex_build_jql:
  "build_jql (project_key ex_config) ex_start ex_end [] =
     [(''created'', ex_created_jql), (''resolved'', ex_resolved_jql), (''open'', ex_open_jql)]"
  by (simp add: build_jql_def Let_def ex_config_def strftime_ex_start strftime_ex_end
      ex_created_jql_def ex_resolved_jql_def ex_open_jql_def)

lemma keys_of_keyed: "keys_of (map (\<lambda>k. [(''key'', k)]) ks) = Inr ks"
  by (induction ks) auto

theorem summarize_issues_fail_fast_witness:
  "fst (summarize_issues resolved_fails ex_config ex_start ex_end [] st0) = Inl (RequestException ''read timed out'')
   \<and> map param_jql (requests (snd (summarize_issues resolved_fails ex_config ex_start ex_end [] st0)))
       = [ex_created_jql, ex_resolved_jql]
   \<and> fst (summarize_issues all_answer ex_config ex_start ex_end [] st0)
       = Inr \<lparr>created_count = 12, resolved_count = 9, open_count = 5,
              issue_keys = [(''created'', scal_keys 12), (''resolved'', scal_keys 9),
                            (''open'', [''SCAL-123'', ''SCAL-118'', ''SCAL-117'', ''SCAL-110''])]\<rparr>
   \<and> map param_jql (requests (snd (summarize_issues all_answer ex_config ex_start ex_end [] st0)))
       = [ex_created_jql, ex_resolved_jql, ex_open_jql]"
proof -
  let ?c = "search_request ex_config ex_created_jql"
  let ?r = "search_request ex_config ex_resolved_jql"
  let ?o = "search_request ex_config ex_open_jql"
  let ?s1 = "st0\<lparr>requests := [?c]\<rparr>"
  let ?l1 = "log_msg INFO (''Created issues: '' @ str_int 12) ?s1"
  let ?s2 = "log_msg ERROR ''Failed to call Jira API: read timed out'' (?l1\<lparr>requests := [?c, ?r]\<rparr>)"
  let ?t2 = "?l1\<lparr>requests := [?c, ?r]\<rparr>"
  let ?l2 = "log_msg INFO (''Resolved issues: '' @ str_int 9) ?t2"
  let ?t3 = "?l2\<lparr>requests := [?c, ?r, ?o]\<rparr>"
  have f1: "call_jira_api resolved_fails ex_config ex_created_jql st0 = (Inr (12, scal_keys 12), ?s1)"
    by (simp add: resolved_fails_def call_stub_ok)
  have f2: "call_jira_api resolved_fails ex_config ex_resolved_jql ?l1
              = (Inl (RequestException ''read timed out''), ?s2)"
    by (simp add: resolved_fails_def call_jira_api_def Let_def stub_world_def st0_def log_msg_def)
  have a1: "call_jira_api all_answer ex_config ex_created_jql st0 = (Inr (12, scal_keys 12), ?s1)"
    by (simp add: all_answer_def call_stub_ok)
  have a2: "call_jira_api all_answer ex_config ex_resolved_jql ?l1 = (Inr (9, scal_keys 9), ?t2)"
    by (simp add: all_answer_def call_jira_api_def Let_def stub_world_def st0_def log_msg_def
        ok_response_def keys_of_keyed)
  have a3: "call_jira_api all_answer ex_config ex_open_jql ?l2
              = (Inr (5, [''SCAL-123'', ''SCAL-118'', ''SCAL-117'', ''SCAL-110'']), ?t3)"
    by (simp add: all_answer_def call_jira_api_def Let_def stub_world_def st0_def log_msg_def
        ok_response_def)
  from summarize_issues_fail_fast [OF ex_build_jql, where w = resolved_fails and st = st0
      and exc = "RequestException ''read timed out''" and ?st1.0 = ?s1 and ?t1.0 = 12 and ?k1.0 = "scal_keys 12"
      and ?st2.0 = ?s2]
  have r1: "summarize_issues resolved_fails ex_config ex_start ex_end [] st0
              = (Inl (RequestException ''read timed out''), ?s2)"
    using f1 f2 by blast
  from summarize_issues_fail_fast [OF ex_build_jql, where w = all_answer and st = st0
      and ?st1.0 = ?s1 and ?t1.0 = 12 and ?k1.0 = "scal_keys 12"
      and ?t2.0 = 9 and ?k2.0 = "scal_keys 9" and ?st2.0 = ?t2
      and ?r3.0 = "Inr (5, [''SCAL-123'', ''SCAL-118'', ''SCAL-117'', ''SCAL-110''])" and ?st3.0 = ?t3
      and ?t3.0 = 5 and ?k3.0 = "[''SCAL-123'', ''SCAL-118'', ''SCAL-117'', ''SCAL-110'']"]
  have r2: "requests (snd (summarize_issues all_answer ex_config ex_start ex_end [] st0)) = requests st0 @ [?c, ?r, ?o]
     \<and> fst (summarize_issues all_answer ex_config ex_start ex_end [] st0)
       = Inr \<lparr>created_count = 12, resolved_count = 9, open_count = 5,
              issue_keys = [(''created'', scal_keys 12), (''resolved'', scal_keys 9),
                            (''open'', [''SCAL-123'', ''SCAL-118'', ''SCAL-117'', ''SCAL-110''])]\<rparr>"
    using a1 a2 a3 by blast
  show ?thesis
    using r1 r2 by (simp add: log_msg_def st0_def search_request_def)
qed

section \<open>Properties of the orchestrator\<close>

lemma loop_stdout_mails:
  "stdout (snd (summarize_loop w config items counts ikeys st)) = stdout st
   \<and> mails (snd (summarize_loop w config items counts ikeys st)) = mails st"
proof (induction items arbitrary: counts ikeys st)
  case Nil
  then show ?case by simp
next
  case (Cons item items)
  obtain label q where item: "item = (label, q)" by (cases item)
  show ?case
  proof (cases "call_jira_api w config q st")
    case (Pair r st1)
    have keep: "stdout st1 = stdout st \<and> mails st1 = mails st"
      using call_stdout_mails [of w config q st] Pair by simp
    show ?thesis
    proof (cases r)
      case (Inl exc)
      then show ?thesis using item Pair keep by simp
    next
      case (Inr res)
      obtain tot ks where res: "res = (tot, ks)" by (cases res)
      show ?thesis
        using item Pair Inr res keep
          Cons.IH [of "dict_set label tot counts" "dict_set label ks ikeys"
            "log_msg INFO (capitalize label @ '' issues: '' @ str_int tot) st1"]
        by (simp add: log_msg_def)
    qed
  qed
qed

lemma summarize_stdout_mails:
  "summarize_issues w config start end_dt f st = (r, st1) \<Longrightarrow> stdout st1 = stdout st \<and> mails st1 = mails st"
  using loop_stdout_mails [of w config "build_jql (project_key config) start end_dt f" "[]" "[]" st]
  by (auto simp: summarize_issues_def split: prod.splits sum.splits)

lemma summarize_ex_answers:
  "summarize_issues (stub_world env ex_answers) ex_config ex_start ex_end [] st0 =
     (Inr ex_summary,
      \<lparr>requests = [search_request ex_config ex_created_jql, search_request ex_config ex_resolved_jql,
                   search_request ex_config ex_open_jql],
       logged = [(INFO, ''Created issues: 12''), (INFO, ''Resolved issues: 9''), (INFO, ''Open issues: 5'')],
       stdout = [], mails = []\<rparr>)"
  by (simp add: summarize_issues_def ex_build_jql call_jira_api_def Let_def stub_world_def st0_def
      log_msg_def ok_response_def keys_of_keyed capitalize_labels counts_get_def ex_answers_def ex_summary_def
      str_int_def digits10.simps digit_char_def)

lemma minus_days_ex: "minus_days ex_end 7 = Inr ex_start"
  by (simp add: minus_days_def ex_end_def ex_start_def ymd2ord_def days_before_year_def days_before_month_def
      DAYS_BEFORE_MONTH_def DAYS_IN_MONTH_def is_leap_def MAXORDINAL_def ord2ymd_def Let_def)

lemma load_config_ex: "load_config ex_environ = Inr (ex_config, ex_smtp)"
  by code_simp

lemma jira_from_env_error: "JiraConfig_from_env env = Inl exc \<Longrightarrow> is_EnvironmentError exc"
  by (auto simp: JiraConfig_from_env_def Let_def split: if_splits)

lemma load_config_missing_smtp:
  assumes "missing_names env [''SMTP_HOST'', ''SMTP_PORT'', ''SMTP_USERNAME'', ''SMTP_PASSWORD'',
                               ''SMTP_SENDER'', ''SMTP_RECIPIENT''] \<noteq> []"
  shows "\<exists>exc. load_config env = Inl exc \<and> is_EnvironmentError exc"
proof (cases "JiraConfig_from_env env")
  case (Inl exc)
  then show ?thesis using jira_from_env_error [of env exc] by (simp add: load_config_def)
next
  case (Inr cfg)
  then show ?thesis using assms by (simp add: load_config_def SmtpConfig_from_env_def Let_def)
qed

text \<open>
  C5. In a dry run in which the window, the configuration and the summary are obtained,
  \<open>main\<close> prints the rendered body (one more line of output: the body of the summary),
  returns 0, which is none of the codes 1, 2, 3 of the configuration, summarization and
  delivery errors, and opens no mail session.
\<close>

theorem main_dry_run:
  assumes "dry_run a"
    and "minus_days (utcnow w) (days a) = Inr start"
    and "load_config (environ w) = Inr (jira_config, smtp_config)"
    and "summarize_issues w jira_config start (utcnow w) (filters a) st = (Inr summary, st1)"
  shows "fst (main w a st) = Inr 0
       \<and> fst (main w a st) \<notin> {Inr 1, Inr 2, Inr 3}
       \<and> stdout (snd (main w a st)) = stdout st @ [build_email_body summary jira_config]
       \<and> mails (snd (main w a st)) = mails st"
  using assms summarize_stdout_mails [OF assms(4)]
  by (simp add: main_def Let_def log_msg_def)

theorem main_dry_run_witness:
  "dry_run ex_args
   \<and> fst (main (stub_world ex_environ ex_answers) ex_args st0) = Inr 0
   \<and> stdout (snd (main (stub_world ex_environ ex_answers) ex_args st0)) = [build_email_body ex_summary ex_config]
   \<and> mails (snd (main (stub_world ex_environ ex_answers) ex_args st0)) = []"
proof -
  let ?w = "stub_world ex_environ ex_answers"
  have d: "dry_run ex_args" by (simp add: ex_args_def)
  have m: "minus_days (utcnow ?w) (days ex_args) = Inr ex_start"
    by (simp add: stub_world_def ex_args_def minus_days_ex)
  have l: "load_config (environ ?w) = Inr (ex_config, ex_smtp)"
    by (simp add: stub_world_def load_config_ex)
  have s: "summarize_issues ?w ex_config ex_start (utcnow ?w) (filters ex_args) st0 =
     (Inr ex_summary,
      \<lparr>requests = [search_request ex_config ex_created_jql, search_request ex_config ex_resolved_jql,
                   search_request ex_config ex_open_jql],
       logged = [(INFO, ''Created issues: 12''), (INFO, ''Resolved issues: 9''), (INFO, ''Open issues: 5'')],
       stdout = [], mails = []\<rparr>)"
    using summarize_ex_answers [of ex_environ] by (simp add: stub_world_def ex_args_def)
  show ?thesis
    using main_dry_run [OF d m l s] d by (simp add: st0_def)
qed

text \<open>
  C10, as the code has it. A dry run does not skip the check of the mail configuration.
  When a required SMTP variable is unset or empty, a run with \<open>--dry-run\<close> issues no
  tracker request, prints nothing and opens no mail session. It returns the
  configuration-error code 1 when the start of the window exists; \<open>main\<close> computes the
  window before it reads the configuration, so for a lookback that no date reaches the
  run ends with the \<open>OverflowError\<close> of the subtraction instead, the state unchanged.
\<close>

theorem main_config_before_dry_run:
  assumes "dry_run a"
    and "missing_names (environ w) [''SMTP_HOST'', ''SMTP_PORT'', ''SMTP_USERNAME'', ''SMTP_PASSWORD'',
                                     ''SMTP_SENDER'', ''SMTP_RECIPIENT''] \<noteq> []"
  shows "requests (snd (main w a st)) = requests st
       \<and> stdout (snd (main w a st)) = stdout st
       \<and> mails (snd (main w a st)) = mails st
       \<and> (minus_days (utcnow w) (days a) = Inr start \<longrightarrow> fst (main w a st) = Inr 1)
       \<and> (minus_days (utcnow w) (days a) = Inl exc \<longrightarrow> main w a st = (Inl exc, st))"
proof -
  obtain exc' where "load_config (environ w) = Inl exc'" "is_EnvironmentError exc'"
    using load_config_missing_smtp [OF assms(2)] by blast
  then show ?thesis
    by (cases "minus_days (utcnow w) (days a)") (simp_all add: main_def Let_def log_msg_def)
qed

lemma str_int_big: "str_int 1000000000 = ''1000000000''"
  by (simp add: str_int_def digits10.simps digit_char_def)

lemma minus_days_big: "minus_days ex_end 1000000000 = Inl (OverflowError ''days=1000000000; must have magnitude <= 999999999'')"
  by (simp add: minus_days_def str_int_big)

theorem main_config_before_dry_run_witness:
  "dry_run ex_args \<and> dry_run big_args \<and> no_smtp_password ''SMTP_PASSWORD'' = None
   \<and> fst (main (stub_world no_smtp_password ex_answers) ex_args st0) = Inr 1
   \<and> requests (snd (main (stub_world no_smtp_password ex_answers) ex_args st0)) = []
   \<and> stdout (snd (main (stub_world no_smtp_password ex_answers) ex_args st0)) = []
   \<and> mails (snd (main (stub_world no_smtp_password ex_answers) ex_args st0)) = []
   \<and> main (stub_world no_smtp_password ex_answers) big_args st0
       = (Inl (OverflowError ''days=1000000000; must have magnitude <= 999999999''), st0)"
proof -
  let ?w = "stub_world no_smtp_password ex_answers"
  let ?exc = "OverflowError ''days=1000000000; must have magnitude <= 999999999''"
  have d: "dry_run ex_args" and d': "dry_run big_args"
    by (simp_all add: ex_args_def big_args_def)
  have p: "no_smtp_password ''SMTP_PASSWORD'' = None"
    by (simp add: no_smtp_password_def)
  have miss: "missing_names (environ ?w) [''SMTP_HOST'', ''SMTP_PORT'', ''SMTP_USERNAME'', ''SMTP_PASSWORD'',
                                     ''SMTP_SENDER'', ''SMTP_RECIPIENT''] \<noteq> []"
    by (simp add: stub_world_def missing_names_def no_smtp_password_def ex_environ_def)
  have m: "minus_days (utcnow ?w) (days ex_args) = Inr ex_start"
    by (simp add: stub_world_def ex_args_def minus_days_ex)
  have m': "minus_days (utcnow ?w) (days big_args) = Inl ?exc"
    by (simp add: stub_world_def big_args_def minus_days_big)
  note small = main_config_before_dry_run [OF d miss, of st0 ex_start ?exc]
  note big = main_config_before_dry_run [OF d' miss, of st0 ex_start ?exc]
  have r1: "requests (snd (main ?w ex_args st0)) = []"
    using small [THEN conjunct1] by (simp add: st0_def)
  have r2: "stdout (snd (main ?w ex_args st0)) = []"
    using small [THEN conjunct2, THEN conjunct1] by (simp add: st0_def)
  have r3: "mails (snd (main ?w ex_args st0)) = []"
    using small [THEN conjunct2, THEN conjunct2, THEN conjunct1] by (simp add: st0_def)
  have r4: "fst (main ?w ex_args st0) = Inr 1"
    by (rule small [THEN conjunct2, THEN conjunct2, THEN conjunct2, THEN conjunct1, THEN mp, OF m])
  have r5: "main ?w big_args st0 = (Inl ?exc, st0)"
    by (rule big [THEN conjunct2, THEN conjunct2, THEN conjunct2, THEN conjunct2, THEN mp, OF m'])
  show ?thesis
    using d d' p r1 r2 r3 r4 r5 by (simp only: simp_thms)
qed

text \<open>
  The claim C10 as stated fails: with \<open>--dry-run --days 1000000000\<close> and the mail
  password missing, \<open>main\<close> does not return the configuration-error code; it raises
  \<open>OverflowError\<close>.
\<close>

theorem main_overflow_counterexample:
  "dry_run big_args \<and> no_smtp_password ''SMTP_PASSWORD'' = None
   \<and> fst (main (stub_world no_smtp_password ex_answers) big_args st0)
       = Inl (OverflowError ''days=1000000000; must have magnitude <= 999999999'')
   \<and> fst (main (stub_world no_smtp_password ex_answers) big_args st0) \<noteq> Inr 1"
  by (simp add: main_def Let_def stub_world_def big_args_def minus_days_big no_smtp_password_def)

section \<open>Properties of the report renderer\<close>

lemma label_lines_eq:
  "label_lines config (label, ks) =
     [label_heading label,
      if ks = [] then ''<p>No issues found.</p>'' else ''<ul>'' @ concat (map (link_item config) ks) @ ''</ul>'']"
  by (simp add: label_lines_def)

lemma body_loop_concat:
  "body_loop config items lines = lines @ concat (map (label_lines config) items)"
proof (induction items arbitrary: lines)
  case Nil
  then show ?case by simp
next
  case (Cons item items)
  obtain label ks where "item = (label, ks)" by (cases item)
  then show ?case using Cons.IH by (simp add: label_lines_eq)
qed

lemma join_Cons: "join sep (x # xs) = x @ concat (map (\<lambda>l. sep @ l) xs)"
  by (induction xs arbitrary: x) simp_all

lemma join_append: "xs \<noteq> [] \<Longrightarrow> join sep (xs @ ys) = join sep xs @ concat (map (\<lambda>l. sep @ l) ys)"
  by (cases xs) (simp_all add: join_Cons)

lemma body_lines_nonempty: "body_lines summary config \<noteq> []"
  by (simp add: body_lines_def body_loop_concat)

text \<open>
  C9. When the key sequence of a label is empty, the renderer emits for this label its
  sub-heading line and the line \<open><p>No issues found.</p>\<close>, and nothing else: the body
  is the body of the labels before it, a line feed, the sub-heading, a line feed, the
  notice, and then the lines of the labels after it, each after a line feed; no list is
  written for the label. The renderer is a function of the summary and the
  configuration: it reads nothing else and changes no state, so equal arguments give
  equal bodies.
\<close>

theorem body_no_issues_notice:
  assumes "issue_keys summary = pre @ (label, []) # post"
  shows "build_email_body summary config =
           build_email_body (summary\<lparr>issue_keys := pre\<rparr>) config
           @ [nl] @ ''<p><strong>'' @ title label @ '' issues</strong>:</p>''
           @ [nl] @ ''<p>No issues found.</p>''
           @ concat (map (\<lambda>l. nl # l) (body_loop config post []))
       \<and> body_lines summary config =
           body_lines (summary\<lparr>issue_keys := pre\<rparr>) config
           @ [''<p><strong>'' @ title label @ '' issues</strong>:</p>'', ''<p>No issues found.</p>'']
           @ body_loop config post []
       \<and> (summary = summary' \<and> config = config' \<longrightarrow>
            build_email_body summary config = build_email_body summary' config')"
proof -
  have l: "body_lines summary config =
           body_lines (summary\<lparr>issue_keys := pre\<rparr>) config
           @ [''<p><strong>'' @ title label @ '' issues</strong>:</p>'', ''<p>No issues found.</p>'']
           @ body_loop config post []"
    using assms
    by (simp add: body_lines_def body_loop_concat [of config _ "_ # _"] body_loop_concat [of config post "[]"]
        label_lines_eq label_heading_def)
  have "build_email_body summary config =
          join [nl] (body_lines (summary\<lparr>issue_keys := pre\<rparr>) config)
          @ concat (map (\<lambda>l. [nl] @ l)
              ([''<p><strong>'' @ title label @ '' issues</strong>:</p>'', ''<p>No issues found.</p>'']
               @ body_loop config post []))"
    unfolding build_email_body_def l
    by (rule join_append) (rule body_lines_nonempty)
  then have b: "build_email_body summary config =
           build_email_body (summary\<lparr>issue_keys := pre\<rparr>) config
           @ [nl] @ ''<p><strong>'' @ title label @ '' issues</strong>:</p>''
           @ [nl] @ ''<p>No issues found.</p>''
           @ concat (map (\<lambda>l. nl # l) (body_loop config post []))"
    by (simp add: build_email_body_def)
  show ?thesis
  proof (intro conjI impI)
    show "build_email_body summary config =
           build_email_body (summary\<lparr>issue_keys := pre\<rparr>) config
           @ [nl] @ ''<p><strong>'' @ title label @ '' issues</strong>:</p>''
           @ [nl] @ ''<p>No issues found.</p>''
           @ concat (map (\<lambda>l. nl # l) (body_loop config post []))"
      by (rule b)
    show "body_lines summary config =
           body_lines (summary\<lparr>issue_keys := pre\<rparr>) config
           @ [''<p><strong>'' @ title label @ '' issues</strong>:</p>'', ''<p>No issues found.</p>'']
           @ body_loop config post []"
      by (rule l)
    show "build_email_body summary config = build_email_body summary' config'"
      if "summary = summary' \<and> config = config'"
      using that by simp
  qed
qed

lemma notice_prefix_body:
  "build_email_body (notice_summary\<lparr>issue_keys := [(''created'', [''SCAL-7''])]\<rparr>) ex_config =
     ''<h2>Weekly Jira Project Summary</h2>'' @ [nl] @ ''<ul>'' @ [nl]
     @ ''  <li>Issues created: <strong>3</strong></li>'' @ [nl]
     @ ''  <li>Issues resolved: <strong>1</strong></li>'' @ [nl]
     @ ''  <li>Issues currently open: <strong>0</strong></li>'' @ [nl]
     @ ''</ul>'' @ [nl] @ ''<h3>Issue Links</h3>'' @ [nl]
     @ ''<p><strong>Created issues</strong>:</p>'' @ [nl]
     @ ''<ul><li><a href='' @ [sq] @ ''https://jira.example.com/browse/SCAL-7'' @ [sq] @ ''>SCAL-7</a></li></ul>''"
  by code_simp

lemma title_ex: "title ''open'' = ''Open''"
  by code_simp

theorem body_no_issues_notice_witness:
  "build_email_body notice_summary ex_config =
     ''<h2>Weekly Jira Project Summary</h2>'' @ [nl] @ ''<ul>'' @ [nl]
     @ ''  <li>Issues created: <strong>3</strong></li>'' @ [nl]
     @ ''  <li>Issues resolved: <strong>1</strong></li>'' @ [nl]
     @ ''  <li>Issues currently open: <strong>0</strong></li>'' @ [nl]
     @ ''</ul>'' @ [nl] @ ''<h3>Issue Links</h3>'' @ [nl]
     @ ''<p><strong>Created issues</strong>:</p>'' @ [nl]
     @ ''<ul><li><a href='' @ [sq] @ ''https://jira.example.com/browse/SCAL-7'' @ [sq] @ ''>SCAL-7</a></li></ul>'' @ [nl]
     @ ''<p><strong>Open issues</strong>:</p>'' @ [nl]
     @ ''<p>No issues found.</p>''"
proof -
  have k: "issue_keys notice_summary = [(''created'', [''SCAL-7''])] @ (''open'', []) # []"
    by (simp add: notice_summary_def)
  have "build_email_body notice_summary ex_config =
           build_email_body (notice_summary\<lparr>issue_keys := [(''created'', [''SCAL-7''])]\<rparr>) ex_config
           @ [nl] @ ''<p><strong>'' @ title ''open'' @ '' issues</strong>:</p>''
           @ [nl] @ ''<p>No issues found.</p>''
           @ concat (map (\<lambda>l. nl # l) (body_loop ex_config [] []))"
    by (rule body_no_issues_notice [OF k, of ex_config notice_summary ex_config, THEN conjunct1])
  then show ?thesis
    by (simp add: notice_prefix_body title_ex)
qed

lemma links_no_lt: "CHR ''<'' \<notin> set xs \<Longrightarrow> links (xs @ ys) = links ys"
  by (induction xs) auto

lemma links_nl: "links (nl # ys) = links ys"
  by (simp add: nl_def)

lemma takeWhile_upto: "c \<notin> set xs \<Longrightarrow> takeWhile (\<lambda>x. x \<noteq> c) (xs @ c # ys) = xs"
  by (induction xs) auto

lemma dropWhile_upto: "c \<notin> set xs \<Longrightarrow> dropWhile (\<lambda>x. x \<noteq> c) (xs @ c # ys) = c # ys"
  by (induction xs) auto

lemma link_at_item:
  assumes "sq \<notin> set target" "CHR ''<'' \<notin> set k"
  shows "link_at (target @ [sq] @ ''>'' @ k @ ''</a></li>'' @ rest) = (target, k)"
proof -
  have t: "takeWhile (\<lambda>c. c \<noteq> sq) (target @ sq # (''>'' @ k @ ''</a></li>'' @ rest)) = target"
    using assms(1) by (rule takeWhile_upto)
  have d: "dropWhile (\<lambda>c. c \<noteq> sq) (target @ sq # (''>'' @ k @ ''</a></li>'' @ rest))
             = sq # (''>'' @ k @ ''</a></li>'' @ rest)"
    using assms(1) by (rule dropWhile_upto)
  have k: "takeWhile (\<lambda>c. c \<noteq> CHR ''<'') (k @ CHR ''<'' # (''/a></li>'' @ rest)) = k"
    using assms(2) by (rule takeWhile_upto)
  show ?thesis
    using t d k by (simp add: link_at_def Let_def)
qed

lemma links_item:
  assumes "sq \<notin> set (base_url config)" "CHR ''<'' \<notin> set (base_url config)"
    and "sq \<notin> set k" "CHR ''<'' \<notin> set k"
  shows "links (link_item config k @ rest) = (base_url config @ ''/browse/'' @ k, k) # links rest"
proof -
  let ?target = "base_url config @ ''/browse/'' @ k"
  let ?tail = "?target @ [sq] @ ''>'' @ k @ ''</a></li>'' @ rest"
  have sqt: "sq \<notin> set ?target"
    using assms(1,3) by (simp add: sq_def)
  have item: "link_item config k @ rest = ''<li><a href='' @ [sq] @ ?tail"
    by (simp add: link_item_def)
  have step: "links (''<li><a href='' @ [sq] @ ?tail) = link_at ?tail # links (''a href='' @ [sq] @ ?tail)"
    by simp
  have "CHR ''<'' \<notin> set (''a href='' @ [sq] @ ?target @ [sq] @ ''>'' @ k)"
    using assms(2,4) by (simp add: sq_def)
  then have "links ((''a href='' @ [sq] @ ?target @ [sq] @ ''>'' @ k) @ (''</a></li>'' @ rest))
               = links (''</a></li>'' @ rest)"
    by (rule links_no_lt)
  moreover have "links (''</a></li>'' @ rest) = links rest"
    by simp
  ultimately have after: "links (''a href='' @ [sq] @ ?tail) = links rest"
    by simp
  show ?thesis
    using item step after link_at_item [OF sqt assms(4), of rest] by simp
qed

lemma links_items:
  assumes "sq \<notin> set (base_url config)" "CHR ''<'' \<notin> set (base_url config)"
    and "\<forall>k \<in> set ks. sq \<notin> set k \<and> CHR ''<'' \<notin> set k"
  shows "links (concat (map (link_item config) ks) @ rest)
           = map (\<lambda>k. (base_url config @ ''/browse/'' @ k, k)) ks @ links rest"
  using assms(3)
proof (induction ks)
  case Nil
  then show ?case by simp
next
  case (Cons k ks)
  then show ?case
    using links_item [OF assms(1,2), of k "concat (map (link_item config) ks) @ rest"] by simp
qed

lemma digit_char_not_lt: "d < 10 \<Longrightarrow> digit_char d \<noteq> CHR ''<''"
proof -
  assume "d < 10"
  then have "digit_char d \<in> set ''0123456789''"
    unfolding digit_char_def by (intro nth_mem) simp
  then show ?thesis by auto
qed

lemma digits10_no_lt: "CHR ''<'' \<notin> set (digits10 n)"
proof (induction n rule: digits10.induct)
  case (1 n)
  show ?case
  proof (cases "n < 10")
    case True
    then show ?thesis using digit_char_not_lt [of n] by (simp add: digits10.simps [of n])
  next
    case False
    then show ?thesis
      using 1 digit_char_not_lt [of "n mod 10"] by (simp add: digits10.simps [of n])
  qed
qed

lemma str_int_no_lt: "CHR ''<'' \<notin> set (str_int i)"
  by (simp add: str_int_def digits10_no_lt)

lemma char_of_shift:
  fixes n :: nat
  assumes "char_of n = CHR ''<''" "n < 256"
  shows "n = 60"
proof -
  have "(of_char (char_of n :: char) :: nat) = of_char (CHR ''<'')"
    using assms(1) by simp
  then have "n mod 256 = 60"
    by simp
  then show ?thesis
    using assms(2) by simp
qed

lemma to_upper_not_lt: "c \<noteq> CHR ''<'' \<Longrightarrow> to_upper c \<noteq> CHR ''<''"
proof (cases "is_lower c")
  case False
  assume "c \<noteq> CHR ''<''"
  with False show ?thesis by (simp add: to_upper_def)
next
  case True
  define n where "n = (of_char c :: nat)"
  have n: "97 \<le> n" "n \<le> 122"
    using True by (simp_all add: is_lower_def n_def)
  show ?thesis
  proof
    assume "to_upper c = CHR ''<''"
    then have "char_of (n - 32) = CHR ''<''"
      using True by (simp add: to_upper_def n_def)
    moreover have "n - 32 < 256"
      using n by linarith
    ultimately have "n - 32 = 60"
      by (rule char_of_shift)
    then show False
      using n by linarith
  qed
qed

lemma to_lower_not_lt: "c \<noteq> CHR ''<'' \<Longrightarrow> to_lower c \<noteq> CHR ''<''"
proof (cases "is_upper c")
  case False
  assume "c \<noteq> CHR ''<''"
  with False show ?thesis by (simp add: to_lower_def)
next
  case True
  define n where "n = (of_char c :: nat)"
  have n: "65 \<le> n" "n \<le> 90"
    using True by (simp_all add: is_upper_def n_def)
  show ?thesis
  proof
    assume "to_lower c = CHR ''<''"
    then have "char_of (n + 32) = CHR ''<''"
      using True by (simp add: to_lower_def n_def)
    moreover have "n + 32 < 256"
      using n by linarith
    ultimately have "n + 32 = 60"
      by (rule char_of_shift)
    then show False
      using n by linarith
  qed
qed

lemma title_from_no_lt: "CHR ''<'' \<notin> set s \<Longrightarrow> CHR ''<'' \<notin> set (title_from b s)"
proof (induction s arbitrary: b)
  case Nil
  then show ?case by simp
next
  case (Cons c cs)
  then have c: "c \<noteq> CHR ''<''" and cs: "CHR ''<'' \<notin> set cs"
    by auto
  have rest: "CHR ''<'' \<notin> set (title_from b' cs)" for b'
    using Cons.IH cs by blast
  have up: "CHR ''<'' \<noteq> to_upper c" and low: "CHR ''<'' \<noteq> to_lower c" and same: "CHR ''<'' \<noteq> c"
    using c to_upper_not_lt [of c] to_lower_not_lt [of c] by auto
  show ?case
    using rest up low same by simp
qed

lemma title_no_lt: "CHR ''<'' \<notin> set s \<Longrightarrow> CHR ''<'' \<notin> set (title s)"
  by (simp add: title_def title_from_no_lt)

lemma links_join:
  assumes "\<And>l rest. l \<in> set ls \<Longrightarrow> links (l @ rest) = links l @ links rest"
  shows "links (join [nl] ls @ rest) = concat (map links ls) @ links rest"
  using assms
proof (induction ls)
  case Nil
  then show ?case by simp
next
  case (Cons x ls)
  show ?case
  proof (cases ls)
    case Nil
    then show ?thesis using Cons.prems [of x rest] by simp
  next
    case (Cons y ys)
    have "links (x @ ([nl] @ join [nl] ls @ rest)) = links x @ links ([nl] @ join [nl] ls @ rest)"
      using Cons.prems [of x] by simp
    moreover have "links ([nl] @ join [nl] ls @ rest) = links (join [nl] ls @ rest)"
      by (simp add: nl_def)
    moreover have "links (join [nl] ls @ rest) = concat (map links ls) @ links rest"
      using Cons.IH Cons.prems by simp
    ultimately show ?thesis using Cons by simp
  qed
qed

lemma links_heading:
  assumes "CHR ''<'' \<notin> set label"
  shows "links (label_heading label @ rest) = links rest"
proof -
  have "CHR ''<'' \<notin> set (title label)"
    using assms by (rule title_no_lt)
  then have "links (title label @ ('' issues</strong>:</p>'' @ rest)) = links ('' issues</strong>:</p>'' @ rest)"
    by (rule links_no_lt)
  then show ?thesis
    by (simp add: label_heading_def)
qed

lemma links_ul:
  assumes "sq \<notin> set (base_url config)" "CHR ''<'' \<notin> set (base_url config)"
    and "\<forall>k \<in> set ks. sq \<notin> set k \<and> CHR ''<'' \<notin> set k"
  shows "links ((''<ul>'' @ concat (map (link_item config) ks) @ ''</ul>'') @ rest)
           = map (\<lambda>k. (base_url config @ ''/browse/'' @ k, k)) ks @ links rest"
proof -
  have "links (concat (map (link_item config) ks) @ (''</ul>'' @ rest))
          = map (\<lambda>k. (base_url config @ ''/browse/'' @ k, k)) ks @ links (''</ul>'' @ rest)"
    using assms by (rule links_items)
  then show ?thesis by simp
qed

lemma links_second_line:
  assumes "sq \<notin> set (base_url config)" "CHR ''<'' \<notin> set (base_url config)"
    and "\<forall>k \<in> set ks. sq \<notin> set k \<and> CHR ''<'' \<notin> set k"
  shows "links ((if ks = [] then ''<p>No issues found.</p>'' else ''<ul>'' @ concat (map (link_item config) ks) @ ''</ul>'') @ rest)
           = map (\<lambda>k. (base_url config @ ''/browse/'' @ k, k)) ks @ links rest"
proof (cases "ks = []")
  case True
  then show ?thesis by simp
next
  case False
  then show ?thesis using links_ul [OF assms, of rest] by simp
qed

lemma links_created_line:
  "links ((''  <li>Issues created: <strong>'' @ str_int i @ ''</strong></li>'') @ rest) = links rest"
proof -
  have "links (str_int i @ (''</strong></li>'' @ rest)) = links (''</strong></li>'' @ rest)"
    using str_int_no_lt by (rule links_no_lt)
  then show ?thesis by simp
qed

lemma links_resolved_line:
  "links ((''  <li>Issues resolved: <strong>'' @ str_int i @ ''</strong></li>'') @ rest) = links rest"
proof -
  have "links (str_int i @ (''</strong></li>'' @ rest)) = links (''</strong></li>'' @ rest)"
    using str_int_no_lt by (rule links_no_lt)
  then show ?thesis by simp
qed

lemma links_open_line:
  "links ((''  <li>Issues currently open: <strong>'' @ str_int i @ ''</strong></li>'') @ rest) = links rest"
proof -
  have "links (str_int i @ (''</strong></li>'' @ rest)) = links (''</strong></li>'' @ rest)"
    using str_int_no_lt by (rule links_no_lt)
  then show ?thesis by simp
qed

lemma header_lines_links:
  assumes "l \<in> set [''<h2>Weekly Jira Project Summary</h2>'', ''<ul>'',
        ''  <li>Issues created: <strong>'' @ str_int a @ ''</strong></li>'',
        ''  <li>Issues resolved: <strong>'' @ str_int b @ ''</strong></li>'',
        ''  <li>Issues currently open: <strong>'' @ str_int c @ ''</strong></li>'',
        ''</ul>'', ''<h3>Issue Links</h3>'']"
  shows "links (l @ rest) = links rest"
  using assms links_created_line [of a rest] links_resolved_line [of b rest] links_open_line [of c rest]
  by auto

lemma label_lines_links:
  assumes "sq \<notin> set (base_url config)" "CHR ''<'' \<notin> set (base_url config)"
    and "CHR ''<'' \<notin> set label" "\<forall>k \<in> set ks. sq \<notin> set k \<and> CHR ''<'' \<notin> set k"
  shows "\<forall>l \<in> set (label_lines config (label, ks)). \<forall>rest. links (l @ rest) = links l @ links rest"
    and "concat (map links (label_lines config (label, ks))) = map (\<lambda>k. (base_url config @ ''/browse/'' @ k, k)) ks"
proof -
  let ?second = "if ks = [] then ''<p>No issues found.</p>'' else ''<ul>'' @ concat (map (link_item config) ks) @ ''</ul>''"
  let ?exp = "map (\<lambda>k. (base_url config @ ''/browse/'' @ k, k)) ks"
  have h: "links (label_heading label @ rest) = links rest" for rest
    using assms(3) by (rule links_heading)
  have s: "links (?second @ rest) = ?exp @ links rest" for rest
    using assms(1,2,4) by (rule links_second_line)
  have h0: "links (label_heading label) = []"
    using h [of "[]"] by simp
  have s0: "links ?second = ?exp"
    using s [of "[]"] by simp
  show "\<forall>l \<in> set (label_lines config (label, ks)). \<forall>rest. links (l @ rest) = links l @ links rest"
    using h h0 s s0 by (simp add: label_lines_eq)
  show "concat (map links (label_lines config (label, ks))) = ?exp"
    using h0 s0 by (simp add: label_lines_eq)
qed

text \<open>
  C8, as the code has it. The renderer writes keys and base URL into the markup as they
  are, without escaping. When the base URL and the keys contain neither an apostrophe nor
  \<open><\<close>, and the labels contain no \<open><\<close>, reading the links back from the rendered
  body gives, label by label and key by key in the order of the summary, the target
  \<open>base_url/browse/key\<close> with the key as the link text.
\<close>

theorem links_round_trip:
  assumes "sq \<notin> set (base_url config)" "CHR ''<'' \<notin> set (base_url config)"
    and "\<forall>(label, ks) \<in> set (issue_keys summary).
           CHR ''<'' \<notin> set label \<and> (\<forall>k \<in> set ks. sq \<notin> set k \<and> CHR ''<'' \<notin> set k)"
  shows "links (build_email_body summary config) =
           concat (map (\<lambda>(label, ks). map (\<lambda>k. (base_url config @ ''/browse/'' @ k, k)) ks) (issue_keys summary))"
proof -
  let ?hdr = "[''<h2>Weekly Jira Project Summary</h2>'', ''<ul>'',
        ''  <li>Issues created: <strong>'' @ str_int (created_count summary) @ ''</strong></li>'',
        ''  <li>Issues resolved: <strong>'' @ str_int (resolved_count summary) @ ''</strong></li>'',
        ''  <li>Issues currently open: <strong>'' @ str_int (open_count summary) @ ''</strong></li>'',
        ''</ul>'', ''<h3>Issue Links</h3>'']"
  let ?sections = "concat (map (label_lines config) (issue_keys summary))"
  let ?exp = "\<lambda>(label, ks). map (\<lambda>k. (base_url config @ ''/browse/'' @ k, k)) ks"
  have lines: "body_lines summary config = ?hdr @ ?sections"
    by (simp add: body_lines_def body_loop_concat)
  have hdr: "links (l @ rest) = links rest" if "l \<in> set ?hdr" for l rest
    using that by (rule header_lines_links)
  have hdr0: "links l = []" if "l \<in> set ?hdr" for l
    using hdr [OF that, of "[]"] by simp
  have hdr_clean: "links (l @ rest) = links l @ links rest" if "l \<in> set ?hdr" for l rest
    using hdr [OF that] hdr0 [OF that] by simp
  have sec_clean: "links (l @ rest) = links l @ links rest" if "l \<in> set ?sections" for l rest
  proof -
    have "\<exists>item \<in> set (issue_keys summary). l \<in> set (label_lines config item)"
      using that by auto
    then obtain item where mem: "item \<in> set (issue_keys summary)" and l0: "l \<in> set (label_lines config item)"
      by blast
    obtain label ks where eq: "item = (label, ks)"
      by (cases item)
    have item: "(label, ks) \<in> set (issue_keys summary)" and l: "l \<in> set (label_lines config (label, ks))"
      using mem l0 eq by simp_all
    have "CHR ''<'' \<notin> set label" "\<forall>k \<in> set ks. sq \<notin> set k \<and> CHR ''<'' \<notin> set k"
      using assms(3) item by auto
    then show ?thesis
      using label_lines_links(1) [OF assms(1,2), of label ks] l by blast
  qed
  have sec_links: "concat (map links (concat (map (label_lines config) items))) = concat (map ?exp items)"
    if "set items \<subseteq> set (issue_keys summary)" for items
    using that
  proof (induction items)
    case Nil
    then show ?case by simp
  next
    case (Cons item items)
    obtain label ks where item: "item = (label, ks)" by (cases item)
    have "CHR ''<'' \<notin> set label" "\<forall>k \<in> set ks. sq \<notin> set k \<and> CHR ''<'' \<notin> set k"
      using assms(3) Cons.prems item by auto
    then have "concat (map links (label_lines config (label, ks))) = ?exp (label, ks)"
      using label_lines_links(2) [OF assms(1,2), of label ks] by simp
    then show ?case
      using Cons item by simp
  qed
  have hdr_links: "concat (map links ?hdr) = []"
    using hdr0 by (simp del: links.simps)
  have clean: "links (l @ rest) = links l @ links rest" if "l \<in> set (?hdr @ ?sections)" for l rest
    using that hdr_clean [of l rest] sec_clean [of l rest] by (simp only: set_append Un_iff) blast
  have "links (join [nl] (?hdr @ ?sections) @ []) = concat (map links (?hdr @ ?sections)) @ links []"
    using clean by (rule links_join)
  then have "links (join [nl] (?hdr @ ?sections)) = concat (map links ?hdr) @ concat (map links ?sections)"
    by (simp only: append_Nil2 links.simps(1) map_append concat_append)
  then show ?thesis
    using hdr_links sec_links [of "issue_keys summary"] lines
    by (simp only: build_email_body_def append_Nil subset_refl)
qed

theorem links_round_trip_witness:
  "links (build_email_body rt_summary ex_config) =
     [(''https://jira.example.com/browse/SCAL-124'', ''SCAL-124''),
      (''https://jira.example.com/browse/SCAL-123'', ''SCAL-123''),
      (''https://jira.example.com/browse/SCAL-118'', ''SCAL-118'')]"
proof -
  have a: "sq \<notin> set (base_url ex_config)" and b: "CHR ''<'' \<notin> set (base_url ex_config)"
    by (simp_all add: ex_config_def sq_def)
  have c: "\<forall>(label, ks) \<in> set (issue_keys rt_summary).
           CHR ''<'' \<notin> set label \<and> (\<forall>k \<in> set ks. sq \<notin> set k \<and> CHR ''<'' \<notin> set k)"
    by (simp add: rt_summary_def sq_def)
  show ?thesis
    using links_round_trip [OF a b c] by (simp add: rt_summary_def ex_config_def)
qed

text \<open>
  The claim C8 as stated fails: for the key \<open>SCAL-1'x\<close> the link read back from the body
  has the target \<open>https://jira.example.com/browse/SCAL-1\<close>, cut at the apostrophe.
\<close>

theorem links_round_trip_counterexample:
  "issue_keys quote_summary = [(''open'', [quote_key])]
   \<and> links (build_email_body quote_summary ex_config)
       \<noteq> [(base_url ex_config @ ''/browse/'' @ quote_key, quote_key)]
   \<and> map fst (links (build_email_body quote_summary ex_config)) = [''https://jira.example.com/browse/SCAL-1'']"
  by code_simp

end
